theory Spec2Isabelle
  imports Complex_Main "HOL-Library.Sublist"
begin

section \<open>The pipeline driver \<open>script/run_ezkl.py\<close>\<close>

text \<open>
  The driver is a single function \<open>main\<close> that changes directory, probes for the
  \<open>ezkl\<close> tool, runs a fixed list of commands and, on request, two more. Everything it
  does to the outside world is recorded, in order, as a list of events; the way the
  process ends is a value of type \<open>outcome\<close>. The outside world answers through an
  \<open>env\<close>: whether \<open>os.chdir\<close> succeeds on a path, and what running a command gives.
\<close>

subsection \<open>Data\<close>

text \<open>The namespace returned by \<open>parser.parse_args()\<close> (lines 8 to 13).\<close>

record args =
  working_dir :: string
  model_path :: string
  srs_path :: string
  generate_contract :: bool

text \<open>
  \<open>subprocess.run\<close> either fails to launch the program (it raises \<open>OSError\<close>, for
  instance \<open>FileNotFoundError\<close>) or the child runs to completion with a return code,
  having written some text to its standard output and error.
\<close>

datatype proc_result = LaunchError | Exited int string

datatype stdio = Inherit | Pipe

text \<open>
  The exceptions that occur in the three programs. \<open>ValueError\<close> carries its message;
  \<open>OtherException\<close> stands for whatever else a library may raise.
\<close>

datatype py_exn =
    OSError
  | CalledProcessError
  | JSONDecodeError
  | ValueError string
  | OverflowError
  | OtherException

datatype event =
    Chdir string
  | Spawn "string list" stdio
  | ChildOutput string
  | Print string

datatype outcome = Returned | SysExit int | Uncaught py_exn

record env =
  chdir_ok :: "string \<Rightarrow> bool"
  invoke :: "string list \<Rightarrow> proc_result"

text \<open>
  The exit status of the Python process: 0 when \<open>main\<close> returns, the argument of
  \<open>sys.exit\<close>, and 1 when an exception reaches the top level.
\<close>

fun exit_status :: "outcome \<Rightarrow> int" where
  "exit_status Returned = 0"
| "exit_status (SysExit n) = n"
| "exit_status (Uncaught x) = 1"

subsection \<open>Library calls\<close>

text \<open>\<open>sep.join(xs)\<close> on strings.\<close>

fun str_join :: "string \<Rightarrow> string list \<Rightarrow> string" where
  "str_join sep [] = []"
| "str_join sep [x] = x"
| "str_join sep (x # y # ys) = x @ sep @ str_join sep (y # ys)"

text \<open>
  \<open>subprocess.run(cmd, check=..., stdout=io, stderr=io)\<close>. With inherited streams the
  child's output reaches the operator's console; with pipes it is captured in the result
  object (or in the \<open>CalledProcessError\<close>), which the driver never reads. With
  \<open>check=True\<close> a nonzero return code is raised as \<open>CalledProcessError\<close>.
\<close>

definition subprocess_run ::
    "env \<Rightarrow> string list \<Rightarrow> bool \<Rightarrow> stdio \<Rightarrow> event list \<times> (py_exn + int)" where
  "subprocess_run e cmd check io =
     (case invoke e cmd of
        LaunchError \<Rightarrow> ([Spawn cmd io], Inl OSError)
      | Exited rc out \<Rightarrow>
          (Spawn cmd io # (case io of Inherit \<Rightarrow> [ChildOutput out] | Pipe \<Rightarrow> []),
           if check \<and> rc \<noteq> 0 then Inl CalledProcessError else Inr rc))"

subsection \<open>The stage registry\<close>

text \<open>The probe of lines 18 to 22, and the two lists built at lines 24 to 32 and 42 to 45.\<close>

definition preflight_cmd :: "string list" where
  "preflight_cmd = [''ezkl'', ''--help'']"

definition steps :: "args \<Rightarrow> (string list \<times> string) list" where
  "steps a =
    [([''ezkl'', ''gen-settings'', ''-M'', model_path a, ''-O'', ''settings.json''],
        ''Generating circuit settings...''),
     ([''ezkl'', ''calibrate-settings'', ''-M'', model_path a, ''-D'', ''input.json'',
        ''-O'', ''settings.json''],
        ''Calibrating settings...''),
     ([''ezkl'', ''compile-circuit'', ''-M'', model_path a, ''--compiled-circuit'',
        ''model.compiled'', ''-S'', ''settings.json''],
        ''Compiling model to circuit...''),
     ([''ezkl'', ''setup'', ''-M'', ''model.compiled'', ''--pk-path'', ''pk.key'',
        ''--vk-path'', ''vk.key'', ''--srs-path'', srs_path a],
        ''Running setup to generate keys...''),
     ([''ezkl'', ''gen-witness'', ''-D'', ''input.json'', ''-M'', ''model.compiled'',
        ''-O'', ''witness.json''],
        ''Generating witness...''),
     ([''ezkl'', ''prove'', ''--witness'', ''witness.json'', ''--proof-path'', ''proof.json'',
        ''--pk-path'', ''pk.key'', ''--compiled-circuit'', ''model.compiled'',
        ''--srs-path'', srs_path a],
        ''Generating proof...''),
     ([''ezkl'', ''verify'', ''--proof-path'', ''proof.json'', ''--vk-path'', ''vk.key'',
        ''--srs-path'', srs_path a],
        ''Verifying proof locally...'')]"

definition contract_step :: "args \<Rightarrow> (string list \<times> string) list" where
  "contract_step a =
    [([''ezkl'', ''create-evm-verifier'', ''--vk-path'', ''vk.key'', ''--sol-code-path'',
        ''Halo2Verifier.sol'', ''--srs-path'', srs_path a],
        ''Generating Solidity verifier contract...''),
     ([''ezkl'', ''encode-evm-calldata'', ''--proof-path'', ''proof.json'',
        ''--calldata-path'', ''calldata.json''],
        ''Generating calldata for on-chain verification...'')]"

subsection \<open>The driver\<close>

text \<open>
  The loop of lines 34 to 39, which lines 46 to 51 repeat word for word on the second
  list: print the message, run the command with inherited streams and no \<open>check\<close>, and on
  a nonzero return code print the command and leave through \<open>sys.exit(1)\<close>.
  \<open>Returned\<close> means the loop ran off the end of its list.
\<close>

fun run_steps :: "env \<Rightarrow> (string list \<times> string) list \<Rightarrow> event list \<times> outcome" where
  "run_steps e [] = ([], Returned)"
| "run_steps e ((cmd, msg) # rest) =
     (case subprocess_run e cmd False Inherit of
        (evs, Inl x) \<Rightarrow> (Print msg # evs, Uncaught x)
      | (evs, Inr rc) \<Rightarrow>
          if rc \<noteq> 0
          then (Print msg # evs @ [Print (''Failed step: '' @ str_join '' '' cmd)], SysExit 1)
          else (case run_steps e rest of (evs', t) \<Rightarrow> (Print msg # evs @ evs', t)))"

text \<open>
  \<open>main\<close> from line 15 on, given the parsed arguments. A failing \<open>os.chdir\<close> raises
  outside every \<open>try\<close>; \<open>except Exception\<close> at line 20 catches both exceptions the
  probe can raise.
\<close>

definition main :: "env \<Rightarrow> args \<Rightarrow> event list \<times> outcome" where
  "main e a =
     (if \<not> chdir_ok e (working_dir a) then ([], Uncaught OSError)
      else
        (case subprocess_run e preflight_cmd True Pipe of
           (evs0, Inl x) \<Rightarrow>
             (Chdir (working_dir a) # evs0 @
                [Print ''EZKL not found. Please install it with: pip install ezkl''],
              SysExit 1)
         | (evs0, Inr rc) \<Rightarrow>
             (case run_steps e (steps a) of
                (evs1, Returned) \<Rightarrow>
                  if generate_contract a
                  then
                    (case run_steps e (contract_step a) of
                       (evs2, Returned) \<Rightarrow>
                         (Chdir (working_dir a) # evs0 @ evs1 @ evs2 @
                            [Print ''EZKL processing complete!''],
                          Returned)
                     | (evs2, t) \<Rightarrow> (Chdir (working_dir a) # evs0 @ evs1 @ evs2, t))
                  else
                    (Chdir (working_dir a) # evs0 @ evs1 @
                       [Print ''EZKL processing complete!''],
                     Returned)
              | (evs1, t) \<Rightarrow> (Chdir (working_dir a) # evs0 @ evs1, t))))"

subsection \<open>Reading a trace\<close>

text \<open>The commands handed to \<open>subprocess.run\<close>, in order, and the lines the driver prints.\<close>

fun invocations :: "event list \<Rightarrow> string list list" where
  "invocations [] = []"
| "invocations (Spawn c io # r) = c # invocations r"
| "invocations (Chdir p # r) = invocations r"
| "invocations (ChildOutput s # r) = invocations r"
| "invocations (Print s # r) = invocations r"

fun printed :: "event list \<Rightarrow> string list" where
  "printed [] = []"
| "printed (Print s # r) = s # printed r"
| "printed (Chdir p # r) = printed r"
| "printed (Spawn c io # r) = printed r"
| "printed (ChildOutput s # r) = printed r"

text \<open>A command counts as succeeding when the child exits with return code 0.\<close>

fun returns0 :: "proc_result \<Rightarrow> bool" where
  "returns0 (Exited rc out) = (rc = 0)"
| "returns0 LaunchError = False"


definition stage_ok :: "env \<Rightarrow> string list \<times> string \<Rightarrow> bool" where
  "stage_ok e s = returns0 (invoke e (fst s))"

text \<open>
  The sequence a run works through after the probe: the core list, followed by the
  extension list when \<open>--generate-contract\<close> was given.
\<close>

definition pipeline :: "args \<Rightarrow> (string list \<times> string) list" where
  "pipeline a = steps a @ (if generate_contract a then contract_step a else [])"

section \<open>The model-preparation programs \<open>create_model.py\<close> and \<open>script/create_model.py\<close>\<close>

text \<open>
  Both programs are straight-line module code: validate \<open>sys.argv\<close>, create the output
  directory, score the features with a small torch model, export the model to ONNX (the
  script variant only when asked), and write three JSON files. As for the driver, what a
  run does to the outside world is a list of effects and the way it ends is an
  \<open>outcome\<close>. The libraries (json, os, torch, time, string formatting of floats and
  objects) are not part of the repository; a \<open>host\<close> answers for them.
\<close>

subsection \<open>Data\<close>

text \<open>
  A Python float: finite, infinite or not a number. Rounding is not modelled: a finite
  float is the real number it denotes.
\<close>

datatype pyfloat = Fin real | PInf | NInf | NaN

text \<open>The objects \<open>json.loads\<close> returns and \<open>json.dump\<close> accepts.\<close>

datatype json =
    JNull
  | JBool bool
  | JInt int
  | JFloat pyfloat
  | JStr string
  | JArr "json list"
  | JObj "(string \<times> json) list"

datatype effect =
    Output string
  | MakeDirs string
  | OnnxExport string
  | WriteJson string json

record host =
  json_loads :: "string \<Rightarrow> py_exn + json"
  makedirs_ok :: "string \<Rightarrow> bool"
  torch_score :: "json list \<Rightarrow> pyfloat option"
  model_weights :: "pyfloat list"
  export_ok :: "string \<Rightarrow> bool"
  open_ok :: "string \<Rightarrow> bool"
  unix_time :: "nat \<Rightarrow> int"
  py_str :: "json \<Rightarrow> string"
  py_fmt4 :: "pyfloat \<Rightarrow> string"

text \<open>
  \<open>json_loads\<close> is \<open>json.loads\<close>, which raises \<open>JSONDecodeError\<close> on text that is not
  JSON. \<open>makedirs_ok\<close>, \<open>export_ok\<close> and \<open>open_ok\<close> say whether \<open>os.makedirs(p,
  exist_ok=True)\<close>, \<open>torch.onnx.export\<close> to a path and \<open>open(p, "w")\<close> succeed.
  \<open>torch_score fs\<close> is the result of building the input tensor from \<open>[fs]\<close> and
  evaluating the model on it, \<open>None\<close> when torch raises (as it does on elements that
  are not numbers). \<open>unix_time k\<close> is \<open>int(time.time())\<close> at the \<open>k\<close>-th call.
  \<open>py_str\<close> is \<open>str\<close> and \<open>py_fmt4\<close> the format \<open>:.4f\<close>.
\<close>

subsection \<open>Statements with effects\<close>

text \<open>
  A statement yields the effects it had and either the exception it raised or its value;
  \<open>then_do\<close> runs a statement and, unless it raised, the rest of the program.
\<close>

definition then_do ::
    "effect list \<times> (py_exn + 'a) \<Rightarrow> ('a \<Rightarrow> effect list \<times> (py_exn + 'b))
       \<Rightarrow> effect list \<times> (py_exn + 'b)" where
  "then_do m f =
     (case m of
        (evs, Inl x) \<Rightarrow> (evs, Inl x)
      | (evs, Inr v) \<Rightarrow> (case f v of (evs', r) \<Rightarrow> (evs @ evs', r)))"

definition say :: "string \<Rightarrow> effect list \<times> (py_exn + unit)" where
  "say s = ([Output s], Inr ())"

definition os_makedirs :: "host \<Rightarrow> string \<Rightarrow> effect list \<times> (py_exn + unit)" where
  "os_makedirs h p = (if makedirs_ok h p then ([MakeDirs p], Inr ()) else ([], Inl OSError))"

definition torch_eval :: "host \<Rightarrow> json list \<Rightarrow> effect list \<times> (py_exn + pyfloat)" where
  "torch_eval h fs =
     (case torch_score h fs of None \<Rightarrow> ([], Inl OtherException) | Some s \<Rightarrow> ([], Inr s))"

definition onnx_export :: "host \<Rightarrow> string \<Rightarrow> effect list \<times> (py_exn + unit)" where
  "onnx_export h p =
     (if export_ok h p then ([OnnxExport p], Inr ()) else ([], Inl OtherException))"

definition json_dump_to :: "host \<Rightarrow> string \<Rightarrow> json \<Rightarrow> effect list \<times> (py_exn + unit)" where
  "json_dump_to h p v = (if open_ok h p then ([WriteJson p v], Inr ()) else ([], Inl OSError))"

text \<open>\<open>int(x)\<close> on a float truncates towards zero and raises on \<open>nan\<close> and the infinities.\<close>

definition py_int :: "pyfloat \<Rightarrow> effect list \<times> (py_exn + int)" where
  "py_int x =
     (case x of
        Fin r \<Rightarrow> ([], Inr (if 0 \<le> r then \<lfloor>r\<rfloor> else \<lceil>r\<rceil>))
      | NaN \<Rightarrow> ([], Inl (ValueError ''cannot convert float NaN to integer''))
      | PInf \<Rightarrow> ([], Inl OverflowError)
      | NInf \<Rightarrow> ([], Inl OverflowError))"

text \<open>Comparison of a float with a literal, and multiplication by one.\<close>

fun f_lt :: "pyfloat \<Rightarrow> real \<Rightarrow> bool" where
  "f_lt (Fin r) c = (r < c)"
| "f_lt NInf c = True"
| "f_lt PInf c = False"
| "f_lt NaN c = False"

fun f_gt :: "pyfloat \<Rightarrow> real \<Rightarrow> bool" where
  "f_gt (Fin r) c = (r > c)"
| "f_gt PInf c = True"
| "f_gt NInf c = False"
| "f_gt NaN c = False"

fun f_times1000 :: "pyfloat \<Rightarrow> pyfloat" where
  "f_times1000 (Fin r) = Fin (r * 1000)"
| "f_times1000 x = x"

definition bool_str :: "bool \<Rightarrow> string" where
  "bool_str b = (if b then ''True'' else ''False'')"

text \<open>\<open>os.path.join(a, b)\<close> on POSIX, for a second component that is not absolute.\<close>

definition path_join :: "string \<Rightarrow> string \<Rightarrow> string" where
  "path_join a b = (if a = [] \<or> last a = CHR ''/'' then a @ b else a @ ''/'' @ b)"

text \<open>How module code ends: at its last line, or with an exception nobody caught.\<close>

definition finish :: "effect list \<times> (py_exn + unit) \<Rightarrow> effect list \<times> outcome" where
  "finish m = (case m of (evs, Inl x) \<Rightarrow> (evs, Uncaught x) | (evs, Inr u) \<Rightarrow> (evs, Returned))"

subsection \<open>Shared pieces\<close>

text \<open>The tier computed from the score (the same lines in both programs).\<close>

definition tier_of :: "pyfloat \<Rightarrow> string" where
  "tier_of score =
     (if f_lt score (4 / 10) then ''LOW''
      else if f_lt score (7 / 10) then ''MEDIUM''
      else ''HIGH'')"

definition ezkl_input :: "json list \<Rightarrow> pyfloat \<Rightarrow> json" where
  "ezkl_input features score =
     JObj [(''input_shapes'', JArr [JArr [JInt 4]]),
           (''input_data'', JArr [JArr features]),
           (''output_data'', JArr [JArr [JFloat score]]),
           (''public_output_idxs'', JArr [JArr [JInt 0, JInt 0]])]"

definition metadata :: "string \<Rightarrow> json list \<Rightarrow> pyfloat \<Rightarrow> int \<Rightarrow> int \<Rightarrow> json" where
  "metadata address features score scaled_score t =
     JObj [(''address'', JStr address),
           (''features'', JArr features),
           (''score'', JFloat score),
           (''scaled_score'', JInt scaled_score),
           (''timestamp'', JInt t),
           (''model_version'', JStr ''1.0.0'')]"

text \<open>
  The check inside the \<open>try\<close> (the same in both programs): the parsed value must be a
  list of length 4. Nothing looks at the elements.
\<close>

definition check_features :: "json \<Rightarrow> py_exn + json list" where
  "check_features v =
     (case v of
        JArr fs \<Rightarrow>
          if length fs \<noteq> 4 then Inl (ValueError ''Features must be a list of 4 numbers'')
          else Inr fs
      | _ \<Rightarrow> Inl (ValueError ''Features must be a list of 4 numbers''))"

text \<open>
  The two handlers, in the order of the source: \<open>JSONDecodeError\<close> first, then
  \<open>ValueError\<close>, whose message is printed. Any other exception is not caught.
\<close>

definition handle_features ::
    "py_exn + 'a \<Rightarrow> effect list \<times> (outcome + 'a)" where
  "handle_features r =
     (case r of
        Inr v \<Rightarrow> ([], Inr v)
      | Inl JSONDecodeError \<Rightarrow>
          ([Output ''Error: Features must be a valid JSON array''], Inl (SysExit 1))
      | Inl (ValueError m) \<Rightarrow> ([Output (''Error: '' @ m)], Inl (SysExit 1))
      | Inl x \<Rightarrow> ([], Inl (Uncaught x)))"

subsection \<open>The script variant, \<open>script/create_model.py\<close>\<close>

text \<open>Lines 11 to 28: the usage check, then the \<open>try\<close> with its handlers.\<close>

definition script_validate ::
    "host \<Rightarrow> string list \<Rightarrow> effect list \<times> (outcome + json list \<times> bool)" where
  "script_validate h argv =
     (if length argv < 5
      then ([Output (''Usage: python3 ./script/create_model.py <output_dir> <address> '' @
                     ''<features> <generate_model_flag>''),
             Output (''where generate_model_flag is 1 to generate model or 0 to skip '' @
                     ''model generation'')],
            Inl (SysExit 1))
      else handle_features
             (case json_loads h (argv ! 3) of
                Inl x \<Rightarrow> Inl x
              | Inr v \<Rightarrow>
                  (case check_features v of
                     Inl x \<Rightarrow> Inl x
                   | Inr fs \<Rightarrow> Inr (fs, argv ! 4 = ''1''))))"

definition script_debug_info ::
    "host \<Rightarrow> string \<Rightarrow> json list \<Rightarrow> pyfloat \<Rightarrow> int \<Rightarrow> int \<Rightarrow> json" where
  "script_debug_info h address features score scaled_score t =
     JObj [(''address'', JStr address),
           (''features'', JArr features),
           (''original_score'', JFloat score),
           (''scaled_score'', JInt scaled_score),
           (''credit_tier'', JStr (tier_of score)),
           (''favorable_rate_eligible'', JBool (f_gt score (1 / 2))),
           (''model_weights'', JArr (map JFloat (model_weights h))),
           (''timestamp'', JInt t)]"

text \<open>Lines 73 to 86: the export, or the message that it is skipped.\<close>

definition script_export :: "host \<Rightarrow> string \<Rightarrow> bool \<Rightarrow> effect list \<times> (py_exn + unit)" where
  "script_export h onnx_path generate_model =
     (if generate_model
      then then_do (say (''Generating model file: '' @ onnx_path))
             (\<lambda>_. onnx_export h onnx_path)
      else say ''Skipping model generation as per flag'')"

text \<open>Lines 135 to 138.\<close>

definition script_final_message :: "string \<Rightarrow> bool \<Rightarrow> string" where
  "script_final_message output_dir generate_model =
     (if generate_model
      then ''Model converted to ONNX and input prepared for EZKL in '' @ output_dir
      else ''Input prepared for EZKL in '' @ output_dir)"

text \<open>Lines 30 to 138.\<close>

definition script_body ::
    "host \<Rightarrow> string \<Rightarrow> string \<Rightarrow> json list \<Rightarrow> bool \<Rightarrow> effect list \<times> outcome" where
  "script_body h output_dir address features generate_model =
     finish
      (then_do (os_makedirs h output_dir) (\<lambda>_.
       then_do (torch_eval h features) (\<lambda>score.
       then_do (say (''Address: '' @ address)) (\<lambda>_.
       then_do (say (''Features: '' @ py_str h (JArr features))) (\<lambda>_.
       then_do (say (''Calculated score: '' @ py_fmt4 h score)) (\<lambda>_.
       then_do (say (''Credit tier: '' @ tier_of score)) (\<lambda>_.
       then_do (say ''Threshold for favorable rate: 0.5'') (\<lambda>_.
       then_do (say (''Qualifies for favorable rate (100% collateral): '' @
                     bool_str (f_gt score (1 / 2)))) (\<lambda>_.
       then_do (script_export h (path_join output_dir ''credit_model.onnx'') generate_model)
         (\<lambda>_.
       then_do (py_int (f_times1000 score)) (\<lambda>scaled_score.
       then_do (say (''Scaled score (0-1000): '' @ py_str h (JInt scaled_score))) (\<lambda>_.
       then_do (json_dump_to h (path_join output_dir ''input.json'')
                  (ezkl_input features score)) (\<lambda>_.
       then_do (json_dump_to h (path_join output_dir ''scaling_debug.json'')
                  (script_debug_info h address features score scaled_score (unix_time h 0)))
         (\<lambda>_.
       then_do (json_dump_to h (path_join output_dir ''metadata.json'')
                  (metadata address features score scaled_score (unix_time h 1))) (\<lambda>_.
       say (script_final_message output_dir generate_model))))))))))))))))"

definition create_model_script :: "host \<Rightarrow> string list \<Rightarrow> effect list \<times> outcome" where
  "create_model_script h argv =
     (case script_validate h argv of
        (evs, Inl out) \<Rightarrow> (evs, out)
      | (evs, Inr (features, generate_model)) \<Rightarrow>
          (case script_body h (argv ! 1) (argv ! 2) features generate_model of
             (evs', out) \<Rightarrow> (evs @ evs', out)))"

subsection \<open>The top-level variant, \<open>create_model.py\<close>\<close>

text \<open>Lines 11 to 26: three arguments are enough, and there is no flag.\<close>

definition root_validate ::
    "host \<Rightarrow> string list \<Rightarrow> effect list \<times> (outcome + json list)" where
  "root_validate h argv =
     (if length argv < 4
      then ([Output ''Usage: python3 create_model.py <output_dir> <address> <features>''],
            Inl (SysExit 1))
      else handle_features
             (case json_loads h (argv ! 3) of
                Inl x \<Rightarrow> Inl x
              | Inr v \<Rightarrow> check_features v))"

definition root_debug_info ::
    "string \<Rightarrow> json list \<Rightarrow> pyfloat \<Rightarrow> int \<Rightarrow> int \<Rightarrow> json" where
  "root_debug_info address features score scaled_score t =
     JObj [(''address'', JStr address),
           (''features'', JArr features),
           (''original_score'', JFloat score),
           (''scaled_score'', JInt scaled_score),
           (''credit_tier'', JStr (tier_of score)),
           (''favorable_rate_eligible'', JBool (f_gt score (1 / 2))),
           (''timestamp'', JInt t)]"

text \<open>Lines 29 to 126: the model is always exported.\<close>

definition root_body ::
    "host \<Rightarrow> string \<Rightarrow> string \<Rightarrow> json list \<Rightarrow> effect list \<times> outcome" where
  "root_body h output_dir address features =
     finish
      (then_do (os_makedirs h output_dir) (\<lambda>_.
       then_do (torch_eval h features) (\<lambda>score.
       then_do (say (''Address: '' @ address)) (\<lambda>_.
       then_do (say (''Features: '' @ py_str h (JArr features))) (\<lambda>_.
       then_do (say (''Calculated score: '' @ py_fmt4 h score)) (\<lambda>_.
       then_do (say (''Credit tier: '' @ tier_of score)) (\<lambda>_.
       then_do (say ''Threshold for favorable rate: 0.5'') (\<lambda>_.
       then_do (say (''Qualifies for favorable rate (100% collateral): '' @
                     bool_str (f_gt score (1 / 2)))) (\<lambda>_.
       then_do (onnx_export h (path_join output_dir ''credit_model.onnx'')) (\<lambda>_.
       then_do (py_int (f_times1000 score)) (\<lambda>scaled_score.
       then_do (say (''Scaled score (0-1000): '' @ py_str h (JInt scaled_score))) (\<lambda>_.
       then_do (json_dump_to h (path_join output_dir ''input.json'')
                  (ezkl_input features score)) (\<lambda>_.
       then_do (json_dump_to h (path_join output_dir ''scaling_debug.json'')
                  (root_debug_info address features score scaled_score (unix_time h 0)))
         (\<lambda>_.
       then_do (json_dump_to h (path_join output_dir ''metadata.json'')
                  (metadata address features score scaled_score (unix_time h 1))) (\<lambda>_.
       say (''Model converted to ONNX and input prepared for EZKL in '' @ output_dir)
       )))))))))))))))"

definition create_model_root :: "host \<Rightarrow> string list \<Rightarrow> effect list \<times> outcome" where
  "create_model_root h argv =
     (case root_validate h argv of
        (evs, Inl out) \<Rightarrow> (evs, out)
      | (evs, Inr features) \<Rightarrow>
          (case root_body h (argv ! 1) (argv ! 2) features of
             (evs', out) \<Rightarrow> (evs @ evs', out)))"

subsection \<open>Reading a run\<close>

text \<open>The files a run writes, in order, and whether an effect touches the file system.\<close>

fun written_files :: "effect list \<Rightarrow> string list" where
  "written_files [] = []"
| "written_files (OnnxExport p # r) = p # written_files r"
| "written_files (WriteJson p v # r) = p # written_files r"
| "written_files (Output s # r) = written_files r"
| "written_files (MakeDirs p # r) = written_files r"

fun made_dirs :: "effect list \<Rightarrow> string list" where
  "made_dirs [] = []"
| "made_dirs (MakeDirs p # r) = p # made_dirs r"
| "made_dirs (OnnxExport p # r) = made_dirs r"
| "made_dirs (WriteJson p v # r) = made_dirs r"
| "made_dirs (Output s # r) = made_dirs r"

fun outputs :: "effect list \<Rightarrow> string list" where
  "outputs [] = []"
| "outputs (Output s # r) = s # outputs r"
| "outputs (MakeDirs p # r) = outputs r"
| "outputs (OnnxExport p # r) = outputs r"
| "outputs (WriteJson p v # r) = outputs r"

fun onnx_writes :: "effect list \<Rightarrow> string list" where
  "onnx_writes [] = []"
| "onnx_writes (OnnxExport p # r) = p # onnx_writes r"
| "onnx_writes (WriteJson p v # r) = onnx_writes r"
| "onnx_writes (Output s # r) = onnx_writes r"
| "onnx_writes (MakeDirs p # r) = onnx_writes r"

text \<open>
  A run is rejected when it printed something, created no directory, wrote no file and
  left through \<open>sys.exit(1)\<close>.
\<close>

definition rejected :: "effect list \<times> outcome \<Rightarrow> bool" where
  "rejected r =
     (outputs (fst r) \<noteq> [] \<and> made_dirs (fst r) = [] \<and> written_files (fst r) = []
      \<and> snd r = SysExit 1)"

section \<open>Concrete runs\<close>

text \<open>
  A configuration and a family of stub environments used to evaluate the definitions:
  \<open>stub_env cd failing\<close> lets \<open>os.chdir\<close> succeed exactly when \<open>cd\<close> holds, and every
  command exits with 0 except those whose subcommand (second token) is listed in
  \<open>failing\<close>, which exit with 1.
\<close>

definition demo_args :: "bool \<Rightarrow> args" where
  "demo_args gc =
     \<lparr>working_dir = ''proof_generation'', model_path = ''credit_model.onnx'',
      srs_path = ''kzg.srs'', generate_contract = gc\<rparr>"

definition stub_env :: "bool \<Rightarrow> string list \<Rightarrow> env" where
  "stub_env cd failing =
     \<lparr>chdir_ok = (\<lambda>p. cd),
      invoke = (\<lambda>cmd. if hd (tl cmd) \<in> set failing then Exited 1 ''error'' else Exited 0 ''ok'')\<rparr>"


text \<open>The tool is not installed: every attempt to launch it raises.\<close>

definition missing_tool_env :: env where
  "missing_tool_env = \<lparr>chdir_ok = (\<lambda>p. True), invoke = (\<lambda>cmd. LaunchError)\<rparr>"


text \<open>
  A host on which every library call succeeds. It parses a few texts, and its torch
  accepts numbers only.
\<close>

fun is_number :: "json \<Rightarrow> bool" where
  "is_number (JInt n) = True"
| "is_number (JFloat x) = True"
| "is_number v = False"

definition demo_host :: host where
  "demo_host =
     \<lparr>json_loads =
        (\<lambda>s. if s = ''[0.9, 0.8, 0.7, 0.6]''
             then Inr (JArr [JFloat (Fin (9 / 10)), JFloat (Fin (8 / 10)),
                             JFloat (Fin (7 / 10)), JFloat (Fin (6 / 10))])
             else if s = ''[null, true, {}, []]''
             then Inr (JArr [JNull, JBool True, JObj [], JArr []])
             else if s = ''[1, 2, 3]'' then Inr (JArr [JInt 1, JInt 2, JInt 3])
             else if s = ''7'' then Inr (JInt 7)
             else Inl JSONDecodeError),
      makedirs_ok = (\<lambda>p. True),
      torch_score = (\<lambda>fs. if list_all is_number fs then Some (Fin (9241 / 10000)) else None),
      model_weights = [Fin (3 / 10), Fin (2 / 10), Fin (2 / 10), Fin (3 / 10)],
      export_ok = (\<lambda>p. True),
      open_ok = (\<lambda>p. True),
      unix_time = (\<lambda>k. 1700000000 + int k),
      py_str = (\<lambda>v. case v of JInt n \<Rightarrow> ''<int>'' | _ \<Rightarrow> ''<object>''),
      py_fmt4 = (\<lambda>x. ''0.9241'')\<rparr>"

definition demo_argv :: "string \<Rightarrow> string \<Rightarrow> string list" where
  "demo_argv features flag =
     [''./script/create_model.py'', ''out'', ''0x276ef71c8F12508d187E7D8Fcc2FE6A38a5884B1'',
      features, flag]"

section \<open>Properties of the driver\<close>

lemmas demo_defs =
  demo_args_def stub_env_def main_def pipeline_def steps_def contract_step_def
  preflight_cmd_def subprocess_run_def

subsection \<open>The loop\<close>

lemma run_steps_append:
  "run_steps e (xs @ ys) =
     (case run_steps e xs of
        (evs, Returned) \<Rightarrow> (case run_steps e ys of (evs', t) \<Rightarrow> (evs @ evs', t))
      | (evs, t) \<Rightarrow> (evs, t))"
  by (induction xs) (auto split: prod.splits sum.splits outcome.splits if_splits)

lemma run_steps_returned:
  "snd (run_steps e ss) = Returned \<longleftrightarrow> list_all (stage_ok e) ss"
  by (induction ss)
     (auto simp: stage_ok_def subprocess_run_def
           split: prod.splits sum.splits proc_result.splits if_splits)

lemma run_steps_invocations:
  "invocations (fst (run_steps e ss)) =
     map fst (takeWhile (stage_ok e) ss @ take 1 (dropWhile (stage_ok e) ss))"
  by (induction ss)
     (auto simp: stage_ok_def subprocess_run_def
           split: prod.splits sum.splits proc_result.splits if_splits)

lemma invocations_append: "invocations (xs @ ys) = invocations xs @ invocations ys"
  by (induction xs rule: invocations.induct) auto


lemma run_steps_all_ok:
  "list_all (stage_ok e) ss \<Longrightarrow>
     snd (run_steps e ss) = Returned \<and> invocations (fst (run_steps e ss)) = map fst ss"
  by (induction ss)
     (auto simp: stage_ok_def subprocess_run_def
           split: prod.splits sum.splits proc_result.splits if_splits)

lemma run_steps_after_ok:
  assumes "list_all (stage_ok e) pre"
  shows "run_steps e (pre @ rest) =
           (fst (run_steps e pre) @ fst (run_steps e rest), snd (run_steps e rest))"
proof -
  from assms have "snd (run_steps e pre) = Returned"
    by (simp add: run_steps_returned)
  then show ?thesis
    by (cases "run_steps e pre"; cases "run_steps e rest") (simp add: run_steps_append)
qed

lemma run_steps_failing_head:
  assumes "invoke e cmd = Exited rc out" and "rc \<noteq> 0"
  shows "run_steps e ((cmd, msg) # post) =
           ([Print msg, Spawn cmd Inherit, ChildOutput out,
             Print (''Failed step: '' @ str_join '' '' cmd)], SysExit 1)"
  using assms by (simp add: subprocess_run_def)

lemma run_steps_launch_error_head:
  assumes "invoke e cmd = LaunchError"
  shows "run_steps e ((cmd, msg) # post) = ([Print msg, Spawn cmd Inherit], Uncaught OSError)"
  using assms by (simp add: subprocess_run_def)

lemma run_steps_fail_at:
  assumes i: "i < length ss"
    and before: "list_all (stage_ok e) (take i ss)"
    and res: "invoke e (fst (ss ! i)) = Exited rc out" and rc: "rc \<noteq> 0"
  shows "run_steps e ss =
           (fst (run_steps e (take i ss)) @
              [Print (snd (ss ! i)), Spawn (fst (ss ! i)) Inherit, ChildOutput out,
               Print (''Failed step: '' @ str_join '' '' (fst (ss ! i)))],
            SysExit 1)"
proof -
  have split: "ss = take i ss @ (fst (ss ! i), snd (ss ! i)) # drop (Suc i) ss"
    using i by (simp add: id_take_nth_drop)
  have "run_steps e ss =
          run_steps e (take i ss @ (fst (ss ! i), snd (ss ! i)) # drop (Suc i) ss)"
    using split by simp
  also have "\<dots> = (fst (run_steps e (take i ss)) @
                      fst (run_steps e ((fst (ss ! i), snd (ss ! i)) # drop (Suc i) ss)),
                    snd (run_steps e ((fst (ss ! i), snd (ss ! i)) # drop (Suc i) ss)))"
    by (rule run_steps_after_ok [OF before])
  finally show ?thesis
    using run_steps_failing_head [OF res rc, of "snd (ss ! i)" "drop (Suc i) ss"] by simp
qed

lemma main_chdir_fail:
  "\<not> chdir_ok e (working_dir a) \<Longrightarrow> main e a = ([], Uncaught OSError)"
  by (simp add: main_def)

lemma main_preflight_fail:
  assumes "chdir_ok e (working_dir a)" and "\<not> returns0 (invoke e preflight_cmd)"
  shows "main e a =
           ([Chdir (working_dir a), Spawn preflight_cmd Pipe,
             Print ''EZKL not found. Please install it with: pip install ezkl''], SysExit 1)"
  using assms
  by (cases "invoke e preflight_cmd") (simp_all add: main_def subprocess_run_def)

lemma main_run:
  assumes "chdir_ok e (working_dir a)" and "returns0 (invoke e preflight_cmd)"
  shows "main e a =
           (Chdir (working_dir a) # Spawn preflight_cmd Pipe # fst (run_steps e (pipeline a)) @
              (if snd (run_steps e (pipeline a)) = Returned
               then [Print ''EZKL processing complete!''] else []),
            snd (run_steps e (pipeline a)))"
  using assms
  by (cases "invoke e preflight_cmd")
     (auto simp: main_def subprocess_run_def pipeline_def run_steps_append
           split: prod.splits outcome.splits)

lemma pipeline_distinct: "distinct (map fst (pipeline a))"
  by (cases "generate_contract a") (auto simp: pipeline_def steps_def contract_step_def)

lemma spawn_in_invocations: "Spawn c io \<in> set tr \<Longrightarrow> c \<in> set (invocations tr)"
  by (induction tr rule: invocations.induct) auto

lemma invoked_prefix_ok:
  assumes "distinct (map fst ss)" and "i < length ss"
    and "fst (ss ! i) \<in> set (invocations (fst (run_steps e ss)))"
  shows "list_all (stage_ok e) (take i ss)"
  using assms
proof (induction ss arbitrary: i)
  case Nil
  then show ?case by simp
next
  case (Cons s rest)
  show ?case
  proof (cases i)
    case 0
    then show ?thesis by simp
  next
    case (Suc j)
    with Cons.prems have j: "j < length rest"
      by simp
    then have "fst (rest ! j) \<in> fst ` set rest"
      by (intro imageI nth_mem)
    moreover have "fst s \<notin> fst ` set rest"
      using Cons.prems(1) by simp
    ultimately have ne: "fst (rest ! j) \<noteq> fst s"
      by metis
    from Cons.prems(3) Suc ne have ok: "stage_ok e s"
      and mem: "fst (rest ! j) \<in> set (invocations (fst (run_steps e rest)))"
      by (cases s; auto simp: stage_ok_def subprocess_run_def
            split: prod.splits sum.splits proc_result.splits if_splits)+
    from Cons.IH [OF _ j mem] Cons.prems(1) have "list_all (stage_ok e) (take j rest)"
      by simp
    with ok Suc show ?thesis by simp
  qed
qed


subsection \<open>Fail-fast abort\<close>

text \<open>
  Claim C1. Let stage \<open>i\<close> of the sequence being executed (the core list, followed by the
  extension list when the contract flag is set) be invoked in a run and exit with a
  nonzero return code. Then the commands handed to \<open>subprocess.run\<close> in that run are the
  probe and stages \<open>0..i\<close> and nothing else, so no later stage is invoked; the last thing
  the driver does is print \<open>Failed step:\<close> followed by the failing command, its tokens
  joined by single spaces; and the process leaves through \<open>sys.exit(1)\<close>, a nonzero exit
  status.
\<close>

theorem fail_fast_abort:
  assumes i: "i < length (pipeline a)"
    and invoked: "Spawn (fst (pipeline a ! i)) Inherit \<in> set (fst (main e a))"
    and res: "invoke e (fst (pipeline a ! i)) = Exited rc out"
    and rc: "rc \<noteq> 0"
  shows "invocations (fst (main e a)) = preflight_cmd # map fst (take (Suc i) (pipeline a))
       \<and> last (fst (main e a)) = Print (''Failed step: '' @ str_join '' '' (fst (pipeline a ! i)))
       \<and> snd (main e a) = SysExit 1
       \<and> exit_status (snd (main e a)) \<noteq> 0"
proof -
  have cd: "chdir_ok e (working_dir a)"
    using invoked by (cases "chdir_ok e (working_dir a)") (simp_all add: main_chdir_fail)
  have pre: "returns0 (invoke e preflight_cmd)"
    using invoked cd
    by (cases "returns0 (invoke e preflight_cmd)") (simp_all add: main_preflight_fail)
  note m = main_run [OF cd pre]
  have "Spawn (fst (pipeline a ! i)) Inherit \<in> set (fst (run_steps e (pipeline a)))"
    using invoked by (simp add: m split: if_splits)
  then have "fst (pipeline a ! i) \<in> set (invocations (fst (run_steps e (pipeline a))))"
    by (rule spawn_in_invocations)
  then have before: "list_all (stage_ok e) (take i (pipeline a))"
    by (rule invoked_prefix_ok [OF pipeline_distinct i])
  note r = run_steps_fail_at [OF i before res rc]
  have inv: "invocations (fst (run_steps e (take i (pipeline a)))) = map fst (take i (pipeline a))"
    using run_steps_all_ok [OF before] by simp
  have "invocations (fst (main e a)) = preflight_cmd # map fst (take (Suc i) (pipeline a))"
    using i by (simp add: m r invocations_append inv take_Suc_conv_app_nth)
  moreover have "last (fst (main e a)) =
      Print (''Failed step: '' @ str_join '' '' (fst (pipeline a ! i)))"
    by (simp add: m r)
  moreover have "snd (main e a) = SysExit 1"
    by (simp add: m r)
  ultimately show ?thesis by simp
qed


text \<open>The fourth core stage (\<open>setup\<close>) fails: the probe and four stages are invoked.\<close>

theorem fail_fast_abort_witness:
  "invocations (fst (main (stub_env True [''setup'']) (demo_args False))) =
     [[''ezkl'', ''--help''],
      [''ezkl'', ''gen-settings'', ''-M'', ''credit_model.onnx'', ''-O'', ''settings.json''],
      [''ezkl'', ''calibrate-settings'', ''-M'', ''credit_model.onnx'', ''-D'',
       ''input.json'', ''-O'', ''settings.json''],
      [''ezkl'', ''compile-circuit'', ''-M'', ''credit_model.onnx'', ''--compiled-circuit'',
       ''model.compiled'', ''-S'', ''settings.json''],
      [''ezkl'', ''setup'', ''-M'', ''model.compiled'', ''--pk-path'', ''pk.key'',
       ''--vk-path'', ''vk.key'', ''--srs-path'', ''kzg.srs'']]
   \<and> last (fst (main (stub_env True [''setup'']) (demo_args False))) =
       Print (''Failed step: ezkl setup -M model.compiled --pk-path pk.key '' @
              ''--vk-path vk.key --srs-path kzg.srs'')
   \<and> exit_status (snd (main (stub_env True [''setup'']) (demo_args False))) = 1"
  using fail_fast_abort [of 3 "demo_args False" "stub_env True [''setup'']" 1 "''error''"]
  by (simp add: demo_defs)

subsection \<open>Core sequence\<close>

lemma first_failure_prefix: "prefix (takeWhile P xs @ take 1 (dropWhile P xs)) xs"
  by (induction xs) auto

lemma run_steps_invocations_prefix:
  "prefix (invocations (fst (run_steps e ss))) (map fst ss)"
  unfolding run_steps_invocations by (rule map_mono_prefix) (rule first_failure_prefix)

lemma run_steps_invocations_subset:
  "set (invocations (fst (run_steps e ss))) \<subseteq> fst ` set ss"
  using set_mono_prefix [OF run_steps_invocations_prefix [of e ss]] by simp

lemma main_invocations_run:
  assumes "chdir_ok e (working_dir a)" and "returns0 (invoke e preflight_cmd)"
  shows "invocations (fst (main e a)) =
           preflight_cmd # invocations (fst (run_steps e (pipeline a)))"
  by (simp add: main_run [OF assms] invocations_append)



subsection \<open>Extension gating\<close>

lemma extension_cmd_fresh:
  assumes "c \<in> fst ` set (contract_step a)"
  shows "c \<notin> fst ` set (steps a)" and "c \<noteq> preflight_cmd"
  using assms by (auto simp: contract_step_def steps_def preflight_cmd_def)

lemma run_steps_stops:
  assumes "\<not> list_all (stage_ok e) xs"
  shows "run_steps e (xs @ ys) = run_steps e xs"
proof -
  from assms have "snd (run_steps e xs) \<noteq> Returned"
    by (simp add: run_steps_returned)
  then show ?thesis
    by (cases "run_steps e xs") (auto simp: run_steps_append split: outcome.splits)
qed

text \<open>
  Claim C3. If a command of the extension list (verifier-contract generation or calldata
  encoding) is invoked in a run, then the contract flag is set, every one of the seven
  core stages exits with return code 0, and all seven were invoked, in order, right after
  the probe. In particular nothing of the extension list is invoked when the flag is
  unset, whatever the core stages return.
\<close>

theorem extension_gating:
  assumes ext: "c \<in> fst ` set (contract_step a)"
    and invoked: "c \<in> set (invocations (fst (main e a)))"
  shows "generate_contract a
       \<and> list_all (stage_ok e) (steps a)
       \<and> prefix (preflight_cmd # map fst (steps a)) (invocations (fst (main e a)))"
proof -
  have cd: "chdir_ok e (working_dir a)"
    using invoked by (cases "chdir_ok e (working_dir a)") (simp_all add: main_chdir_fail)
  have pre: "returns0 (invoke e preflight_cmd)"
    using invoked cd extension_cmd_fresh(2) [OF ext]
    by (cases "returns0 (invoke e preflight_cmd)") (simp_all add: main_preflight_fail)
  note inv = main_invocations_run [OF cd pre]
  from invoked have mem: "c \<in> set (invocations (fst (run_steps e (pipeline a))))"
    using extension_cmd_fresh(2) [OF ext] by (simp add: inv)
  have gc: "generate_contract a"
  proof (rule ccontr)
    assume "\<not> generate_contract a"
    then have "pipeline a = steps a" by (simp add: pipeline_def)
    with mem run_steps_invocations_subset [of e "steps a"]
    have "c \<in> fst ` set (steps a)" by auto
    with extension_cmd_fresh(1) [OF ext] show False by simp
  qed
  then have pl: "pipeline a = steps a @ contract_step a"
    by (simp add: pipeline_def)
  have core: "list_all (stage_ok e) (steps a)"
  proof (rule ccontr)
    assume "\<not> list_all (stage_ok e) (steps a)"
    then have "run_steps e (pipeline a) = run_steps e (steps a)"
      unfolding pl by (rule run_steps_stops)
    with mem run_steps_invocations_subset [of e "steps a"]
    have "c \<in> fst ` set (steps a)" by auto
    with extension_cmd_fresh(1) [OF ext] show False by simp
  qed
  have "invocations (fst (run_steps e (pipeline a))) =
          map fst (steps a) @ invocations (fst (run_steps e (contract_step a)))"
    unfolding pl using run_steps_all_ok [OF core]
    by (simp add: run_steps_after_ok [OF core] invocations_append)
  then have "prefix (preflight_cmd # map fst (steps a)) (invocations (fst (main e a)))"
    by (simp add: inv)
  with gc core show ?thesis by simp
qed

text \<open>With the flag set and every command succeeding, calldata encoding is invoked.\<close>

theorem extension_gating_witness:
  "[''ezkl'', ''encode-evm-calldata'', ''--proof-path'', ''proof.json'',
    ''--calldata-path'', ''calldata.json'']
     \<in> set (invocations (fst (main (stub_env True []) (demo_args True))))
   \<and> generate_contract (demo_args True)
   \<and> list_all (stage_ok (stub_env True [])) (steps (demo_args True))"
  using extension_gating [of "[''ezkl'', ''encode-evm-calldata'', ''--proof-path'',
      ''proof.json'', ''--calldata-path'', ''calldata.json'']" "demo_args True"
      "stub_env True []"]
  by (simp add: demo_defs stage_ok_def)

subsection \<open>Preflight failure\<close>

text \<open>
  Claim C4. In a run in which the probe \<open>ezkl --help\<close> is made and errors (the tool cannot
  be launched, or it exits with a nonzero return code), the run consists of exactly three
  events: the change of directory, the probe with both streams piped, and the printed
  installation guidance. So no stage command is invoked, nothing a child wrote reaches
  the operator, and the process leaves through \<open>sys.exit(1)\<close>.
\<close>

theorem preflight_failure:
  assumes probed: "Spawn preflight_cmd Pipe \<in> set (fst (main e a))"
    and failed: "\<not> returns0 (invoke e preflight_cmd)"
  shows "main e a =
           ([Chdir (working_dir a), Spawn preflight_cmd Pipe,
             Print ''EZKL not found. Please install it with: pip install ezkl''],
            SysExit 1)
       \<and> invocations (fst (main e a)) = [preflight_cmd]
       \<and> printed (fst (main e a)) =
           [''EZKL not found. Please install it with: pip install ezkl'']
       \<and> (\<forall>s. ChildOutput s \<notin> set (fst (main e a)))
       \<and> exit_status (snd (main e a)) = 1"
proof -
  have cd: "chdir_ok e (working_dir a)"
    using probed by (cases "chdir_ok e (working_dir a)") (simp_all add: main_chdir_fail)
  show ?thesis
    by (simp add: main_preflight_fail [OF cd failed])
qed

text \<open>The probe exits with 1; and the tool is not installed at all.\<close>

theorem preflight_failure_witness:
  "main (stub_env True [''--help'']) (demo_args True) =
     ([Chdir ''proof_generation'', Spawn [''ezkl'', ''--help''] Pipe,
       Print ''EZKL not found. Please install it with: pip install ezkl''],
      SysExit 1)
   \<and> main (missing_tool_env) (demo_args False) =
     ([Chdir ''proof_generation'', Spawn [''ezkl'', ''--help''] Pipe,
       Print ''EZKL not found. Please install it with: pip install ezkl''],
      SysExit 1)"
  using preflight_failure [of "stub_env True [''--help'']" "demo_args True"]
    preflight_failure [of missing_tool_env "demo_args False"]
  by (simp add: demo_defs missing_tool_env_def)

subsection \<open>Full success\<close>




subsection \<open>Execution context\<close>

lemma main_starts_chdir:
  assumes "chdir_ok e (working_dir a)"
  shows "\<exists>rest. fst (main e a) = Chdir (working_dir a) # rest"
  using assms
  by (cases "returns0 (invoke e preflight_cmd)") (simp_all add: main_preflight_fail main_run)

text \<open>
  Claim C7. In every run, an external invocation is never the first event, and the first
  event of a run that invokes anything is the change to the configured working
  directory; and if \<open>os.chdir\<close> fails, the run has no event at all (nothing is invoked)
  and ends with an uncaught exception, exit status 1.
\<close>

theorem execution_context:
  "(\<forall>i c io. i < length (fst (main e a)) \<and> fst (main e a) ! i = Spawn c io \<longrightarrow>
      0 < i \<and> fst (main e a) ! 0 = Chdir (working_dir a))
   \<and> (\<not> chdir_ok e (working_dir a) \<longrightarrow>
      main e a = ([], Uncaught OSError)
      \<and> invocations (fst (main e a)) = []
      \<and> exit_status (snd (main e a)) = 1)"
proof (cases "chdir_ok e (working_dir a)")
  case False
  then show ?thesis by (simp add: main_chdir_fail)
next
  case True
  from main_starts_chdir [OF this] obtain rest
    where tr: "fst (main e a) = Chdir (working_dir a) # rest" ..
  have "0 < i" if "fst (main e a) ! i = Spawn c io" for i c io
    using that by (cases i) (simp_all add: tr)
  with True show ?thesis by (auto simp: tr)
qed

text \<open>A directory that can be entered, and one that cannot.\<close>

theorem execution_context_witness:
  "take 1 (fst (main (stub_env True []) (demo_args False))) = [Chdir ''proof_generation'']
   \<and> fst (main (stub_env True []) (demo_args False)) ! 1 = Spawn [''ezkl'', ''--help''] Pipe
   \<and> main (stub_env False []) (demo_args False) = ([], Uncaught OSError)
   \<and> exit_status (snd (main (stub_env False []) (demo_args False))) = 1"
  using execution_context [of "stub_env True []" "demo_args False"]
    execution_context [of "stub_env False []" "demo_args False"]
  by (simp add: demo_defs)

subsection \<open>SRS parameterization\<close>

text \<open>
  Claim C6. Of the nine stage commands (seven core, two extension), replacing the SRS
  path of the configuration by a different one changes exactly the commands at positions
  3, 5, 6 and 7, which are \<open>setup\<close>, \<open>prove\<close>, \<open>verify\<close> and \<open>create-evm-verifier\<close>; each of
  them ends with \<open>--srs-path\<close> followed by the configured path. The command at position 8,
  \<open>encode-evm-calldata\<close>, does not receive it.
\<close>

theorem srs_parameterization:
  assumes "s \<noteq> srs_path a"
  shows "filter (\<lambda>k. fst ((steps a @ contract_step a) ! k) \<noteq>
                       fst ((steps (a\<lparr>srs_path := s\<rparr>) @ contract_step (a\<lparr>srs_path := s\<rparr>)) ! k))
            [0, 1, 2, 3, 4, 5, 6, 7, 8] = [3, 5, 6, 7]
       \<and> map (\<lambda>k. hd (tl (fst ((steps a @ contract_step a) ! k)))) [3, 5, 6, 7, 8] =
           [''setup'', ''prove'', ''verify'', ''create-evm-verifier'', ''encode-evm-calldata'']
       \<and> map (\<lambda>k. let c = fst ((steps a @ contract_step a) ! k) in drop (length c - 2) c)
            [3, 5, 6, 7] =
           replicate 4 [''--srs-path'', srs_path a]
       \<and> length (steps a @ contract_step a) = 9"
  using assms by (simp add: steps_def contract_step_def numeral_eq_Suc)

text \<open>Replacing \<open>kzg.srs\<close> by \<open>other.srs\<close>.\<close>

theorem srs_parameterization_witness:
  "filter (\<lambda>k. fst ((steps (demo_args True) @ contract_step (demo_args True)) ! k) \<noteq>
                fst ((steps ((demo_args True)\<lparr>srs_path := ''other.srs''\<rparr>) @
                      contract_step ((demo_args True)\<lparr>srs_path := ''other.srs''\<rparr>)) ! k))
     [0, 1, 2, 3, 4, 5, 6, 7, 8] = [3, 5, 6, 7]"
  using srs_parameterization [of "''other.srs''" "demo_args True"]
  by (simp add: demo_args_def)

subsection \<open>Determinism\<close>




section \<open>Properties of the model-preparation programs\<close>

lemmas cm_defs =
  demo_host_def demo_argv_def rejected_def create_model_script_def create_model_root_def
  script_validate_def root_validate_def handle_features_def check_features_def
  script_body_def root_body_def script_export_def script_final_message_def
  os_makedirs_def torch_eval_def onnx_export_def json_dump_to_def py_int_def say_def
  path_join_def tier_of_def bool_str_def


subsection \<open>Argument validation\<close>

lemma then_do_raise [simp]: "then_do (evs, Inl x) f = (evs, Inl x)"
  by (simp add: then_do_def)

lemma then_do_value [simp]: "then_do (evs, Inr v) f = (evs @ fst (f v), snd (f v))"
  by (simp add: then_do_def split: prod.splits)

lemma finish_simps [simp]:
  "finish (evs, Inl x) = (evs, Uncaught x)"
  "finish (evs, Inr u) = (evs, Returned)"
  by (simp_all add: finish_def)

lemma fst_finish [simp]: "fst (finish m) = fst m"
  by (cases m; cases "snd m") (auto simp: finish_def split: sum.splits)

lemma script_body_starts:
  assumes "makedirs_ok h od"
  shows "take 1 (fst (script_body h od addr fs gm)) = [MakeDirs od]"
  using assms by (simp add: script_body_def os_makedirs_def)

lemma root_body_starts:
  assumes "makedirs_ok h od"
  shows "take 1 (fst (root_body h od addr fs)) = [MakeDirs od]"
  using assms by (simp add: root_body_def os_makedirs_def)

lemma handle_decode_error:
  "handle_features (Inl JSONDecodeError) =
     ([Output ''Error: Features must be a valid JSON array''], Inl (SysExit 1))"
  by (simp add: handle_features_def)

lemma handle_value_error:
  "handle_features (Inl (ValueError m)) = ([Output (''Error: '' @ m)], Inl (SysExit 1))"
  by (simp add: handle_features_def)

lemma handle_value: "handle_features (Inr v) = ([], Inr v)"
  by (simp add: handle_features_def)

lemma check_features_rejects:
  assumes "\<forall>fs. v = JArr fs \<longrightarrow> length fs \<noteq> 4"
  shows "check_features v = Inl (ValueError ''Features must be a list of 4 numbers'')"
  using assms by (cases v) (simp_all add: check_features_def)

lemma check_features_accepts:
  "length fs = 4 \<Longrightarrow> check_features (JArr fs) = Inr fs"
  by (simp add: check_features_def)

lemma script_rejects:
  assumes "length argv < 5
         \<or> json_loads h (argv ! 3) = Inl JSONDecodeError
         \<or> (\<exists>v. json_loads h (argv ! 3) = Inr v \<and> (\<forall>fs. v = JArr fs \<longrightarrow> length fs \<noteq> 4))"
  shows "rejected (create_model_script h argv)"
proof (cases "length argv < 5")
  case True
  then show ?thesis
    by (simp add: rejected_def create_model_script_def script_validate_def)
next
  case False
  with assms consider
      "json_loads h (argv ! 3) = Inl JSONDecodeError"
    | v where "json_loads h (argv ! 3) = Inr v" and "\<forall>fs. v = JArr fs \<longrightarrow> length fs \<noteq> 4"
    by blast
  then show ?thesis
  proof cases
    case 1
    with False show ?thesis
      by (simp add: rejected_def create_model_script_def script_validate_def
            handle_decode_error)
  next
    case 2
    with False show ?thesis
      by (simp add: rejected_def create_model_script_def script_validate_def
            check_features_rejects handle_value_error)
  qed
qed

lemma root_rejects:
  assumes "length argv < 4
         \<or> json_loads h (argv ! 3) = Inl JSONDecodeError
         \<or> (\<exists>v. json_loads h (argv ! 3) = Inr v \<and> (\<forall>fs. v = JArr fs \<longrightarrow> length fs \<noteq> 4))"
  shows "rejected (create_model_root h argv)"
proof (cases "length argv < 4")
  case True
  then show ?thesis
    by (simp add: rejected_def create_model_root_def root_validate_def)
next
  case False
  with assms consider
      "json_loads h (argv ! 3) = Inl JSONDecodeError"
    | v where "json_loads h (argv ! 3) = Inr v" and "\<forall>fs. v = JArr fs \<longrightarrow> length fs \<noteq> 4"
    by blast
  then show ?thesis
  proof cases
    case 1
    with False show ?thesis
      by (simp add: rejected_def create_model_root_def root_validate_def
            handle_decode_error)
  next
    case 2
    with False show ?thesis
      by (simp add: rejected_def create_model_root_def root_validate_def
            check_features_rejects handle_value_error)
  qed
qed

lemma script_accepts:
  assumes "5 \<le> length argv" and "json_loads h (argv ! 3) = Inr (JArr fs)" and "length fs = 4"
  shows "script_validate h argv = ([], Inr (fs, argv ! 4 = ''1''))"
    and "create_model_script h argv = script_body h (argv ! 1) (argv ! 2) fs (argv ! 4 = ''1'')"
  using assms
  by (simp_all add: create_model_script_def script_validate_def check_features_accepts
        handle_value split: prod.splits)

lemma root_accepts:
  assumes "4 \<le> length argv" and "json_loads h (argv ! 3) = Inr (JArr fs)" and "length fs = 4"
  shows "root_validate h argv = ([], Inr fs)"
    and "create_model_root h argv = root_body h (argv ! 1) (argv ! 2) fs"
  using assms
  by (simp_all add: create_model_root_def root_validate_def check_features_accepts
        handle_value split: prod.splits)

text \<open>
  Claim C9. In both programs, a run with too few command-line arguments (fewer than 5
  entries in \<open>sys.argv\<close> for the script variant, fewer than 4 for the top-level one), or
  whose features argument is not valid JSON, or parses to anything but a list of exactly
  4 elements, is rejected: it prints a message, creates no directory, writes no file and
  leaves through \<open>sys.exit(1)\<close>. Conversely, a features argument that parses to a list of
  exactly 4 elements passes validation whatever the elements are: the program goes on
  with the rest of the module, whose first effect, if \<open>os.makedirs\<close> succeeds, is to
  create the output directory.
\<close>

theorem argument_validation:
  "(length argv < 5
      \<or> json_loads h (argv ! 3) = Inl JSONDecodeError
      \<or> (\<exists>v. json_loads h (argv ! 3) = Inr v \<and> (\<forall>fs. v = JArr fs \<longrightarrow> length fs \<noteq> 4))
     \<longrightarrow> rejected (create_model_script h argv))
   \<and> (length argv < 4
      \<or> json_loads h (argv ! 3) = Inl JSONDecodeError
      \<or> (\<exists>v. json_loads h (argv ! 3) = Inr v \<and> (\<forall>fs. v = JArr fs \<longrightarrow> length fs \<noteq> 4))
     \<longrightarrow> rejected (create_model_root h argv))
   \<and> (5 \<le> length argv \<and> json_loads h (argv ! 3) = Inr (JArr fs) \<and> length fs = 4
     \<longrightarrow> script_validate h argv = ([], Inr (fs, argv ! 4 = ''1''))
       \<and> create_model_script h argv =
           script_body h (argv ! 1) (argv ! 2) fs (argv ! 4 = ''1'')
       \<and> (makedirs_ok h (argv ! 1)
           \<longrightarrow> take 1 (fst (create_model_script h argv)) = [MakeDirs (argv ! 1)]))
   \<and> (4 \<le> length argv \<and> json_loads h (argv ! 3) = Inr (JArr fs) \<and> length fs = 4
     \<longrightarrow> root_validate h argv = ([], Inr fs)
       \<and> create_model_root h argv = root_body h (argv ! 1) (argv ! 2) fs
       \<and> (makedirs_ok h (argv ! 1)
           \<longrightarrow> take 1 (fst (create_model_root h argv)) = [MakeDirs (argv ! 1)]))"
  using script_rejects [of argv h] root_rejects [of argv h]
    script_accepts [of argv h fs] root_accepts [of argv h fs]
    script_body_starts [of h "argv ! 1"] root_body_starts [of h "argv ! 1"]
  by simp


text \<open>
  Four rejected runs, and a list of four elements none of which is a number, which
  passes.
\<close>

theorem argument_validation_witness:
  "rejected (create_model_script demo_host (take 4 (demo_argv ''[0.9, 0.8, 0.7, 0.6]'' ''1'')))
   \<and> rejected (create_model_script demo_host (demo_argv ''not json'' ''1''))
   \<and> rejected (create_model_script demo_host (demo_argv ''[1, 2, 3]'' ''1''))
   \<and> rejected (create_model_root demo_host (demo_argv ''7'' ''1''))
   \<and> script_validate demo_host (demo_argv ''[null, true, {}, []]'' ''0'') =
       ([], Inr ([JNull, JBool True, JObj [], JArr []], False))
   \<and> take 1 (fst (create_model_root demo_host (demo_argv ''[null, true, {}, []]'' ''0''))) =
       [MakeDirs ''out'']"
  using
    argument_validation [where h = demo_host
      and argv = "take 4 (demo_argv ''[0.9, 0.8, 0.7, 0.6]'' ''1'')"]
    argument_validation [where h = demo_host and argv = "demo_argv ''not json'' ''1''"]
    argument_validation [where h = demo_host and argv = "demo_argv ''[1, 2, 3]'' ''1''"]
    argument_validation [where h = demo_host and argv = "demo_argv ''7'' ''1''"]
    argument_validation [where h = demo_host
      and argv = "demo_argv ''[null, true, {}, []]'' ''0''"
      and fs = "[JNull, JBool True, JObj [], JArr []]"]
  by (simp add: cm_defs)


subsection \<open>The model-generation flag\<close>

lemma say_then [simp]: "then_do (say s) f = (Output s # fst (f ()), snd (f ()))"
  by (simp add: say_def)

lemma onnx_writes_append [simp]: "onnx_writes (xs @ ys) = onnx_writes xs @ onnx_writes ys"
  by (induction xs rule: onnx_writes.induct) auto

lemma written_files_append [simp]:
  "written_files (xs @ ys) = written_files xs @ written_files ys"
  by (induction xs rule: written_files.induct) auto









end
